theory Spec2Isabelle
  imports Main
begin

section \<open>Exceptions\<close>

text \<open>
  A Python exception is modelled by the name of its class. The source itself raises
  nothing; every exception comes from pandas (\<open>ValueError\<close> from \<open>Series.item()\<close>,
  \<open>KeyError\<close> from a column that is missing) or from the table loader, whose
  exceptions propagate unchanged.
\<close>

datatype exn = Exc string

definition ValueError :: exn where
  "ValueError = Exc ''ValueError''"

definition KeyError :: exn where
  "KeyError = Exc ''KeyError''"

definition and_then :: "exn + 'a \<Rightarrow> ('a \<Rightarrow> exn + 'b) \<Rightarrow> exn + 'b" where
  "and_then r f = (case r of Inl e \<Rightarrow> Inl e | Inr x \<Rightarrow> f x)"

section \<open>The table\<close>

text \<open>
  A cell of the table is a text, a number or the missing value. The numbers are only
  ever handed through by the accessors, never computed with, so their type is left
  open (\<open>'v\<close>).
\<close>

datatype 'v cell = Str string | Num 'v | Null

text \<open>
  A \<open>DataFrame\<close> is the list of its column names and the list of its rows in stored
  order; a row gives the cell of every column.
\<close>

record 'v DataFrame =
  df_columns :: "string list"
  df_rows :: "(string \<Rightarrow> 'v cell) list"

text \<open>The column names of the source; the first one is \<open>M\<close>, e with acute accent, \<open>trica\<close>, in UTF-8.\<close>

definition col_Metrica :: string where
  "col_Metrica = [CHR ''M'', CHR 0xC3, CHR 0xA9, CHR ''t'', CHR ''r'', CHR ''i'', CHR ''c'', CHR ''a'']"

definition col_dnom_mm :: string where
  "col_dnom_mm = ''dnom_mm''"

definition col_s_mm :: string where
  "col_s_mm = ''s_mm''"

text \<open>\<open>df[name]\<close>: the column as a series, \<open>KeyError\<close> when there is no such column.\<close>

definition getitem :: "'v DataFrame \<Rightarrow> string \<Rightarrow> exn + 'v cell list" where
  "getitem df name =
     (if name \<in> set (df_columns df) then Inr (map (\<lambda>r. r name) (df_rows df))
      else Inl KeyError)"

text \<open>\<open>series == metrica\<close>: the boolean mask, one entry per row.\<close>

definition series_eq :: "'v cell list \<Rightarrow> string \<Rightarrow> bool list" where
  "series_eq s metrica = map (\<lambda>c. c = Str metrica) s"

text \<open>\<open>df.loc[msk, name]\<close>: column \<open>name\<close> of the rows whose entry of the mask is true.\<close>

definition loc :: "'v DataFrame \<Rightarrow> bool list \<Rightarrow> string \<Rightarrow> exn + 'v cell list" where
  "loc df msk name =
     (if name \<in> set (df_columns df)
      then Inr (map (\<lambda>r. r name) (map snd (filter fst (zip msk (df_rows df)))))
      else Inl KeyError)"

text \<open>\<open>Series.item()\<close>: the only element of a series of length one, else \<open>ValueError\<close>.\<close>

definition item :: "'v cell list \<Rightarrow> exn + 'v cell" where
  "item s = (case s of [x] \<Rightarrow> Inr x | _ \<Rightarrow> Inl ValueError)"

definition to_list :: "'v cell list \<Rightarrow> exn + 'v cell list" where
  "to_list s = Inr s"

section \<open>The accessor and its collaborators\<close>

text \<open>
  \<open>SQLitePandasDF(path, table).sql_to_df()\<close> is not part of the source: it is a
  parameter. It is given the calls made to it so far, so that a second load may see
  another table than the first, or fail.
\<close>

type_synonym 'v SQLitePandasDF =
  "(string \<times> string) list \<Rightarrow> string \<Rightarrow> string \<Rightarrow> exn + 'v DataFrame"

record 'v DatosTamanoLlaves =
  ruta_datos :: string
  tornillos_db :: string
  tabla :: string
  sql_pd :: "'v SQLitePandasDF"
  df_cache :: "'v DataFrame option"

text \<open>
  The state of a run: the instance, and the log of the calls made to the loader
  (store location and table name), oldest first.
\<close>

record 'v state =
  inst :: "'v DatosTamanoLlaves"
  loads :: "(string \<times> string) list"

text \<open>\<open>__init__\<close>, with \<open>Paths.data\<close> and the loader class as parameters.\<close>

definition init :: "string \<Rightarrow> 'v SQLitePandasDF \<Rightarrow> 'v DatosTamanoLlaves" where
  "init Paths_data SQLitePandasDF =
     \<lparr>ruta_datos = Paths_data @ [CHR 0x5C],
      tornillos_db = ''tornillos.db'',
      tabla = ''tamano_llaves'',
      sql_pd = SQLitePandasDF,
      df_cache = None\<rparr>"

definition load_dataframe :: "'v state \<Rightarrow> (exn + 'v DataFrame) \<times> 'v state" where
  "load_dataframe st =
     (case df_cache (inst st) of
        None \<Rightarrow>
          (let path = ruta_datos (inst st) @ tornillos_db (inst st);
               st' = st\<lparr>loads := loads st @ [(path, tabla (inst st))]\<rparr>
           in case sql_pd (inst st) (loads st) path (tabla (inst st)) of
                Inl e \<Rightarrow> (Inl e, st')
              | Inr df \<Rightarrow> (Inr df, st'\<lparr>inst := (inst st)\<lparr>df_cache := Some df\<rparr>\<rparr>))
      | Some df \<Rightarrow> (Inr df, st))"

definition metricas :: "'v state \<Rightarrow> (exn + 'v cell list) \<times> 'v state" where
  "metricas st =
     (case load_dataframe st of
        (r, st') \<Rightarrow> (and_then r (\<lambda>df. and_then (getitem df col_Metrica) to_list), st'))"

definition diametros_nominales :: "'v state \<Rightarrow> (exn + 'v cell list) \<times> 'v state" where
  "diametros_nominales st =
     (case load_dataframe st of
        (r, st') \<Rightarrow> (and_then r (\<lambda>df. and_then (getitem df col_dnom_mm) to_list), st'))"

definition diametro_nominal :: "'v state \<Rightarrow> string \<Rightarrow> (exn + 'v cell) \<times> 'v state" where
  "diametro_nominal st metrica =
     (case load_dataframe st of
        (r, st') \<Rightarrow>
          (and_then r (\<lambda>df.
             and_then (getitem df col_Metrica) (\<lambda>s.
               and_then (loc df (series_eq s metrica) col_dnom_mm) item)), st'))"

definition tamanos_llave :: "'v state \<Rightarrow> (exn + 'v cell list) \<times> 'v state" where
  "tamanos_llave st =
     (case load_dataframe st of
        (r, st') \<Rightarrow> (and_then r (\<lambda>df. and_then (getitem df col_s_mm) to_list), st'))"

definition tamano_llave :: "'v state \<Rightarrow> string \<Rightarrow> (exn + 'v cell) \<times> 'v state" where
  "tamano_llave st metrica =
     (case load_dataframe st of
        (r, st') \<Rightarrow>
          (and_then r (\<lambda>df.
             and_then (getitem df col_Metrica) (\<lambda>s.
               and_then (loc df (series_eq s metrica) col_s_mm) item)), st'))"

text \<open>Any one call of a public accessor, and what it returns.\<close>

datatype call =
  Metricas | DiametrosNominales | DiametroNominal string | TamanosLlave | TamanoLlave string

datatype 'v retval = Series "'v cell list" | Scalar "'v cell"

definition wrap :: "('a \<Rightarrow> 'v retval) \<Rightarrow> (exn + 'a) \<times> 'v state \<Rightarrow> (exn + 'v retval) \<times> 'v state" where
  "wrap f p = (map_sum id f (fst p), snd p)"

fun run :: "call \<Rightarrow> 'v state \<Rightarrow> (exn + 'v retval) \<times> 'v state" where
  "run Metricas st = wrap Series (metricas st)"
| "run DiametrosNominales st = wrap Series (diametros_nominales st)"
| "run (DiametroNominal m) st = wrap Scalar (diametro_nominal st m)"
| "run TamanosLlave st = wrap Series (tamanos_llave st)"
| "run (TamanoLlave m) st = wrap Scalar (tamano_llave st m)"

fun run_all :: "call list \<Rightarrow> 'v state \<Rightarrow> 'v state" where
  "run_all [] st = st"
| "run_all (c # cs) st = run_all cs (snd (run c st))"

section \<open>Notions the properties are stated with\<close>


text \<open>The number of rows whose metric is the given key.\<close>

definition n_matches :: "'v DataFrame \<Rightarrow> string \<Rightarrow> nat" where
  "n_matches df metrica = count_list (map (\<lambda>r. r col_Metrica) (df_rows df)) (Str metrica)"

text \<open>
  The expression shared by \<open>diametro_nominal\<close> and \<open>tamano_llave\<close>:
  \<open>df.loc[df[col_Metrica] == metrica, name].item()\<close>.
\<close>

definition lookup :: "'v DataFrame \<Rightarrow> string \<Rightarrow> string \<Rightarrow> exn + 'v cell" where
  "lookup df name metrica =
     and_then (getitem df col_Metrica) (\<lambda>s. and_then (loc df (series_eq s metrica) name) item)"

section \<open>Example tables\<close>

text \<open>
  A table of three rows (the wrench size of M1 is the unknown value 0), a table in which
  M8 occurs twice, a loader that always returns a given table, and a freshly
  constructed instance before any call.
\<close>

definition example_row :: "string \<Rightarrow> int \<Rightarrow> int \<Rightarrow> string \<Rightarrow> int cell" where
  "example_row m d s =
     (\<lambda>c. if c = col_Metrica then Str m else if c = col_dnom_mm then Num d
          else if c = col_s_mm then Num s else Null)"

definition example_df :: "int DataFrame" where
  "example_df =
     \<lparr>df_columns = [col_Metrica, col_dnom_mm, col_s_mm],
      df_rows = [example_row ''M1'' 1 0, example_row ''M8'' 8 13, example_row ''M10'' 10 16]\<rparr>"

definition duplicated_df :: "int DataFrame" where
  "duplicated_df =
     \<lparr>df_columns = [col_Metrica, col_dnom_mm, col_s_mm],
      df_rows = [example_row ''M8'' 8 13, example_row ''M10'' 10 16, example_row ''M8'' 8 14]\<rparr>"

definition loader_of :: "'v DataFrame \<Rightarrow> 'v SQLitePandasDF" where
  "loader_of df = (\<lambda>calls path table. Inr df)"

definition fresh_state :: "'v SQLitePandasDF \<Rightarrow> 'v state" where
  "fresh_state ld = \<lparr>inst = init ''datos'' ld, loads = []\<rparr>"

section \<open>Auxiliary facts\<close>

lemmas example_defs =
  fresh_state_def loader_of_def init_def example_df_def duplicated_df_def example_row_def
  col_Metrica_def col_dnom_mm_def col_s_mm_def

lemmas accessor_defs =
  metricas_def diametros_nominales_def diametro_nominal_def tamanos_llave_def tamano_llave_def
  load_dataframe_def and_then_def getitem_def loc_def series_eq_def item_def to_list_def

lemma masked_rows:
  "map (\<lambda>p. g (snd p)) (filter fst (zip (map P xs) xs)) = map g (filter P xs)"
  by (induction xs) auto


lemma filter_unique:
  "count_list (map f xs) v = 1 \<Longrightarrow> i < length xs \<Longrightarrow> f (xs ! i) = v \<Longrightarrow>
   filter (\<lambda>x. f x = v) xs = [xs ! i]"
proof (induction xs arbitrary: i)
  case Nil
  then show ?case by simp
next
  case (Cons x xs)
  show ?case
  proof (cases "f x = v")
    case True
    with Cons.prems(1) have none: "count_list (map f xs) v = 0" by simp
    then have notin: "v \<notin> set (map f xs)" by (simp add: count_list_0_iff)
    have "i = 0"
    proof (rule ccontr)
      assume "i \<noteq> 0"
      then obtain j where j: "i = Suc j" by (cases i) auto
      with Cons.prems(2,3) have "j < length xs" "f (xs ! j) = v" by auto
      then have "v \<in> set (map f xs)" by (metis length_map nth_map nth_mem)
      with notin show False by simp
    qed
    moreover from notin have "filter (\<lambda>x. f x = v) xs = []"
      by (auto simp: filter_empty_conv)
    ultimately show ?thesis using True by simp
  next
    case False
    with Cons.prems(3) obtain j where j: "i = Suc j" by (cases i) auto
    from False Cons.prems(1) have "count_list (map f xs) v = 1" by simp
    moreover from j Cons.prems(2,3) have "j < length xs" "f (xs ! j) = v" by auto
    ultimately have "filter (\<lambda>x. f x = v) xs = [xs ! j]" by (rule Cons.IH)
    with False j show ?thesis by simp
  qed
qed

lemma item_single: "item [x] = Inr x"
  by (simp add: item_def)


lemma lookup_filter:
  "col_Metrica \<in> set (df_columns df) \<Longrightarrow> name \<in> set (df_columns df) \<Longrightarrow>
   lookup df name metrica =
     item (map (\<lambda>r. r name) (filter (\<lambda>r. r col_Metrica = Str metrica) (df_rows df)))"
  by (simp add: lookup_def and_then_def getitem_def loc_def series_eq_def comp_def
      masked_rows [where g = "\<lambda>r. r name"])

lemma lookup_unique:
  assumes "col_Metrica \<in> set (df_columns df)" "name \<in> set (df_columns df)"
    and "n_matches df metrica = 1" "i < length (df_rows df)"
    and "(df_rows df ! i) col_Metrica = Str metrica"
  shows "lookup df name metrica = Inr ((df_rows df ! i) name)"
proof -
  from assms(3) have "count_list (map (\<lambda>r. r col_Metrica) (df_rows df)) (Str metrica) = 1"
    by (simp add: n_matches_def)
  then have "filter (\<lambda>r. r col_Metrica = Str metrica) (df_rows df) = [df_rows df ! i]"
    using assms(4,5) by (rule filter_unique [where f = "\<lambda>r. r col_Metrica"])
  with assms(1,2) show ?thesis by (simp add: lookup_filter item_single)
qed


lemma load_cached: "df_cache (inst st) = Some df \<Longrightarrow> load_dataframe st = (Inr df, st)"
  by (simp add: load_dataframe_def)

lemma load_fresh:
  "df_cache (inst st) = None \<Longrightarrow>
   sql_pd (inst st) (loads st) (ruta_datos (inst st) @ tornillos_db (inst st)) (tabla (inst st)) = Inr df \<Longrightarrow>
   load_dataframe st =
     (Inr df, st\<lparr>loads := loads st @ [(ruta_datos (inst st) @ tornillos_db (inst st), tabla (inst st))],
                inst := (inst st)\<lparr>df_cache := Some df\<rparr>\<rparr>)"
  by (simp add: load_dataframe_def Let_def)

lemma load_failed:
  "df_cache (inst st) = None \<Longrightarrow>
   sql_pd (inst st) (loads st) (ruta_datos (inst st) @ tornillos_db (inst st)) (tabla (inst st)) = Inl e \<Longrightarrow>
   load_dataframe st =
     (Inl e, st\<lparr>loads := loads st @ [(ruta_datos (inst st) @ tornillos_db (inst st), tabla (inst st))]\<rparr>)"
  by (simp add: load_dataframe_def Let_def)

lemma load_cache_after:
  "fst (load_dataframe st) = Inr df \<Longrightarrow> df_cache (inst (snd (load_dataframe st))) = Some df"
  by (auto simp: load_dataframe_def Let_def split: option.splits sum.splits)

lemma load_twice:
  "fst (load_dataframe st) = Inr df \<Longrightarrow>
   load_dataframe (snd (load_dataframe st)) = (Inr df, snd (load_dataframe st))"
  by (simp add: load_cache_after load_cached)

lemma load_frame:
  "inst (snd (load_dataframe st)) = (inst st)\<lparr>df_cache := df_cache (inst (snd (load_dataframe st)))\<rparr>"
  by (auto simp: load_dataframe_def Let_def split: option.splits sum.splits)


lemma snd_metricas: "snd (metricas st) = snd (load_dataframe st)"
  by (simp add: metricas_def split: prod.splits)

lemma snd_diametros_nominales: "snd (diametros_nominales st) = snd (load_dataframe st)"
  by (simp add: diametros_nominales_def split: prod.splits)

lemma snd_diametro_nominal: "snd (diametro_nominal st m) = snd (load_dataframe st)"
  by (simp add: diametro_nominal_def split: prod.splits)

lemma snd_tamanos_llave: "snd (tamanos_llave st) = snd (load_dataframe st)"
  by (simp add: tamanos_llave_def split: prod.splits)

lemma snd_tamano_llave: "snd (tamano_llave st m) = snd (load_dataframe st)"
  by (simp add: tamano_llave_def split: prod.splits)

lemma snd_run: "snd (run c st) = snd (load_dataframe st)"
  by (cases c)
    (simp_all add: wrap_def snd_metricas snd_diametros_nominales snd_diametro_nominal
      snd_tamanos_llave snd_tamano_llave)

lemma fst_metricas:
  "fst (metricas st) = and_then (fst (load_dataframe st)) (\<lambda>df. getitem df col_Metrica)"
  by (simp add: metricas_def and_then_def to_list_def split: prod.splits sum.splits)

lemma fst_diametros_nominales:
  "fst (diametros_nominales st) = and_then (fst (load_dataframe st)) (\<lambda>df. getitem df col_dnom_mm)"
  by (simp add: diametros_nominales_def and_then_def to_list_def split: prod.splits sum.splits)

lemma fst_tamanos_llave:
  "fst (tamanos_llave st) = and_then (fst (load_dataframe st)) (\<lambda>df. getitem df col_s_mm)"
  by (simp add: tamanos_llave_def and_then_def to_list_def split: prod.splits sum.splits)

lemma fst_diametro_nominal:
  "fst (diametro_nominal st m) = and_then (fst (load_dataframe st)) (\<lambda>df. lookup df col_dnom_mm m)"
  by (simp add: diametro_nominal_def lookup_def split: prod.splits)

lemma fst_tamano_llave:
  "fst (tamano_llave st m) = and_then (fst (load_dataframe st)) (\<lambda>df. lookup df col_s_mm m)"
  by (simp add: tamano_llave_def lookup_def split: prod.splits)


lemma and_then_Inr:
  "and_then r f = Inr y \<Longrightarrow> \<exists>x. r = Inr x \<and> f x = Inr y"
  by (cases r) (simp_all add: and_then_def)

lemma getitem_Inr:
  "getitem df name = Inr s \<Longrightarrow>
   name \<in> set (df_columns df) \<and> s = map (\<lambda>r. r name) (df_rows df)"
  by (auto simp: getitem_def split: if_splits)

lemma run_all_cached: "df_cache (inst st) = Some df \<Longrightarrow> run_all cs st = st"
  by (induction cs) (simp_all add: snd_run load_cached)

lemma fst_run_same_load:
  "fst (load_dataframe st) = fst (load_dataframe st') \<Longrightarrow> fst (run c st) = fst (run c st')"
  by (cases c)
    (simp_all add: wrap_def fst_metricas fst_diametros_nominales fst_diametro_nominal
      fst_tamanos_llave fst_tamano_llave)




lemma example_load:
  "fst (load_dataframe (fresh_state (loader_of df))) = Inr df"
  by (simp add: load_dataframe_def fresh_state_def loader_of_def init_def)

lemma load_fields:
  "ruta_datos (inst (snd (load_dataframe st))) = ruta_datos (inst st)"
  "tornillos_db (inst (snd (load_dataframe st))) = tornillos_db (inst st)"
  "tabla (inst (snd (load_dataframe st))) = tabla (inst st)"
  "sql_pd (inst (snd (load_dataframe st))) = sql_pd (inst st)"
  by (simp_all add: load_dataframe_def Let_def split: option.splits sum.splits)

lemma run_all_after_load:
  "fst (load_dataframe st) = Inr df \<Longrightarrow> run_all cs (snd (run c st)) = snd (run c st)"
  by (simp add: snd_run run_all_cached load_cache_after)

section \<open>Scalar lookups against the columns\<close>

text \<open>
  C1. For a metric \<open>m\<close> that occurs exactly once in the table, at index \<open>i\<close> of what
  \<open>metricas()\<close> returns, \<open>diametro_nominal(m)\<close> returns the entry at index \<open>i\<close> of
  \<open>diametros_nominales()\<close> and \<open>tamano_llave(m)\<close> returns the entry at index \<open>i\<close> of
  \<open>tamanos_llave()\<close>.
\<close>

theorem lookup_agrees_with_columns:
  assumes ms: "fst (metricas st) = Inr ms"
    and ds: "fst (diametros_nominales st) = Inr ds"
    and ss: "fst (tamanos_llave st) = Inr ss"
    and once: "count_list ms (Str m) = 1"
    and i: "i < length ms" "ms ! i = Str m"
  shows "fst (diametro_nominal st m) = Inr (ds ! i) \<and> fst (tamano_llave st m) = Inr (ss ! i)"
proof -
  from ms obtain df where df: "fst (load_dataframe st) = Inr df"
    and gm: "getitem df col_Metrica = Inr ms"
    unfolding fst_metricas by (blast dest: and_then_Inr)
  from ds df have gd: "getitem df col_dnom_mm = Inr ds"
    by (simp add: fst_diametros_nominales and_then_def)
  from ss df have gs: "getitem df col_s_mm = Inr ss"
    by (simp add: fst_tamanos_llave and_then_def)
  note cm = getitem_Inr [OF gm] and cd = getitem_Inr [OF gd] and cs = getitem_Inr [OF gs]
  from once cm have n: "n_matches df m = 1" by (simp add: n_matches_def)
  from i cm have j: "i < length (df_rows df)" "(df_rows df ! i) col_Metrica = Str m" by auto
  have "lookup df col_dnom_mm m = Inr ((df_rows df ! i) col_dnom_mm)"
    using cm cd n j by (intro lookup_unique) auto
  moreover have "lookup df col_s_mm m = Inr ((df_rows df ! i) col_s_mm)"
    using cm cs n j by (intro lookup_unique) auto
  ultimately show ?thesis
    using df cd cs j(1) by (simp add: fst_diametro_nominal fst_tamano_llave and_then_def)
qed

theorem lookup_agrees_with_columns_witness:
  "fst (metricas (fresh_state (loader_of example_df))) = Inr [Str ''M1'', Str ''M8'', Str ''M10'']
   \<and> fst (diametros_nominales (fresh_state (loader_of example_df))) = Inr [Num 1, Num 8, Num 10]
   \<and> fst (tamanos_llave (fresh_state (loader_of example_df))) = Inr [Num 0, Num 13, Num 16]
   \<and> fst (diametro_nominal (fresh_state (loader_of example_df)) ''M8'') = Inr (Num 8)
   \<and> fst (tamano_llave (fresh_state (loader_of example_df)) ''M8'') = Inr (Num 13)"
proof -
  let ?st = "fresh_state (loader_of example_df)"
  have ms: "fst (metricas ?st) = Inr [Str ''M1'', Str ''M8'', Str ''M10'']"
    by (simp add: accessor_defs example_defs)
  have ds: "fst (diametros_nominales ?st) = Inr [Num 1, Num 8, Num 10]"
    by (simp add: accessor_defs example_defs)
  have ss: "fst (tamanos_llave ?st) = Inr [Num 0, Num 13, Num 16]"
    by (simp add: accessor_defs example_defs)
  have once: "count_list [Str ''M1'', Str ''M8'', Str ''M10'' :: int cell] (Str ''M8'') = 1"
    by simp
  have i: "(1::nat) < length [Str ''M1'', Str ''M8'', Str ''M10'' :: int cell]"
    "[Str ''M1'', Str ''M8'', Str ''M10'' :: int cell] ! 1 = Str ''M8''"
    by simp_all
  from lookup_agrees_with_columns [OF ms ds ss once i] ms ds ss show ?thesis by simp
qed

section \<open>Lookups that do not match exactly one row\<close>









section \<open>The unknown wrench size\<close>



section \<open>The column accessors\<close>



section \<open>The cache\<close>

text \<open>
  C4. On an instance whose cache slot is unset and whose load returns a table,
  \<open>_load_dataframe\<close> asks the loader exactly once and stores the table; called again it
  returns the stored table and leaves the state, the log of loader calls included, as
  it is. So an accessor \<open>c\<close> called again, after any further calls \<open>cs\<close>, returns what it
  returned the first time, and the loader has been asked once in all. (When the loader
  raises, \<open>load_failed\<close> applies: the exception is the result and the slot stays unset.)
\<close>

theorem load_dataframe_idempotent:
  assumes unset: "df_cache (inst st) = None"
    and ok: "sql_pd (inst st) (loads st) (ruta_datos (inst st) @ tornillos_db (inst st))
               (tabla (inst st)) = Inr df"
  shows "load_dataframe st =
           (Inr df, st\<lparr>loads := loads st @ [(ruta_datos (inst st) @ tornillos_db (inst st), tabla (inst st))],
                      inst := (inst st)\<lparr>df_cache := Some df\<rparr>\<rparr>)
    \<and> load_dataframe (snd (load_dataframe st)) = (Inr df, snd (load_dataframe st))
    \<and> fst (run c (run_all cs (snd (run c st)))) = fst (run c st)
    \<and> loads (run_all cs (snd (run c st))) =
        loads st @ [(ruta_datos (inst st) @ tornillos_db (inst st), tabla (inst st))]"
proof -
  note first = load_fresh [OF unset ok]
  then have df: "fst (load_dataframe st) = Inr df" by simp
  have again: "load_dataframe (snd (load_dataframe st)) = (Inr df, snd (load_dataframe st))"
    using df by (rule load_twice)
  have later: "run_all cs (snd (run c st)) = snd (run c st)"
    using df by (rule run_all_after_load)
  have "fst (load_dataframe (snd (run c st))) = fst (load_dataframe st)"
    using again df by (simp add: snd_run)
  then have "fst (run c (snd (run c st))) = fst (run c st)"
    by (rule fst_run_same_load)
  moreover have "loads (snd (run c st)) =
      loads st @ [(ruta_datos (inst st) @ tornillos_db (inst st), tabla (inst st))]"
    using first by (simp add: snd_run)
  ultimately show ?thesis using first again later by simp
qed

theorem load_dataframe_idempotent_witness:
  "df_cache (inst (fresh_state (loader_of example_df))) = None
   \<and> fst (load_dataframe (fresh_state (loader_of example_df))) = Inr example_df
   \<and> fst (load_dataframe (snd (load_dataframe (fresh_state (loader_of example_df))))) = Inr example_df
   \<and> fst (run (TamanoLlave ''M8'')
          (run_all [Metricas, DiametroNominal ''M999'']
             (snd (run (TamanoLlave ''M8'') (fresh_state (loader_of example_df))))))
       = Inr (Scalar (Num 13))
   \<and> length (loads (run_all [Metricas, DiametroNominal ''M999'']
          (snd (run (TamanoLlave ''M8'') (fresh_state (loader_of example_df)))))) = 1"
proof -
  let ?st = "fresh_state (loader_of example_df)"
  have unset: "df_cache (inst ?st) = None"
    by (simp add: fresh_state_def init_def)
  have ok: "sql_pd (inst ?st) (loads ?st) (ruta_datos (inst ?st) @ tornillos_db (inst ?st))
              (tabla (inst ?st)) = Inr example_df"
    by (simp add: fresh_state_def init_def loader_of_def)
  have r: "fst (run (TamanoLlave ''M8'') ?st) = Inr (Scalar (Num 13))"
    by (simp add: wrap_def accessor_defs example_defs)
  let ?c = "TamanoLlave ''M8''" and ?cs = "[Metricas, DiametroNominal ''M999'']"
  note w = load_dataframe_idempotent [OF unset ok, of ?c ?cs]
  from w have twice: "load_dataframe (snd (load_dataframe ?st)) = (Inr example_df, snd (load_dataframe ?st))"
    by blast
  from w have same: "fst (run ?c (run_all ?cs (snd (run ?c ?st)))) = fst (run ?c ?st)"
    by blast
  from w have one: "loads (run_all ?cs (snd (run ?c ?st))) =
      loads ?st @ [(ruta_datos (inst ?st) @ tornillos_db (inst ?st), tabla (inst ?st))]"
    by blast
  have "fst (load_dataframe (snd (load_dataframe ?st))) = Inr example_df"
    by (simp only: twice fst_conv)
  moreover have "fst (run ?c (run_all ?cs (snd (run ?c ?st)))) = Inr (Scalar (Num 13))"
    by (simp only: same r)
  moreover have "length (loads (run_all ?cs (snd (run ?c ?st)))) = 1"
    by (simp only: one) (simp add: fresh_state_def)
  moreover have "fst (load_dataframe ?st) = Inr example_df"
    by (rule example_load)
  ultimately show ?thesis using unset by (intro conjI)
qed

text \<open>
  C7. Once the table is cached, a call of any public accessor, and any sequence of
  such calls, leaves the whole state unchanged: the cached table, the other fields of
  the instance and the log of loader calls. In any state, cached or not, a call leaves
  every field of the instance other than the cache slot unchanged.
\<close>

theorem accessors_frame:
  "(df_cache (inst st) = Some df \<longrightarrow> snd (run c st) = st \<and> run_all cs st = st)
   \<and> ruta_datos (inst (snd (run c st))) = ruta_datos (inst st)
   \<and> tornillos_db (inst (snd (run c st))) = tornillos_db (inst st)
   \<and> tabla (inst (snd (run c st))) = tabla (inst st)
   \<and> sql_pd (inst (snd (run c st))) = sql_pd (inst st)"
  by (simp add: snd_run load_cached run_all_cached load_fields)

theorem accessors_frame_witness:
  "df_cache (inst (snd (load_dataframe (fresh_state (loader_of example_df))))) = Some example_df
   \<and> snd (run (DiametroNominal ''M999'') (snd (load_dataframe (fresh_state (loader_of example_df)))))
       = snd (load_dataframe (fresh_state (loader_of example_df)))
   \<and> run_all [Metricas, TamanoLlave ''M8''] (snd (load_dataframe (fresh_state (loader_of example_df))))
       = snd (load_dataframe (fresh_state (loader_of example_df)))"
proof -
  let ?st = "snd (load_dataframe (fresh_state (loader_of example_df)))"
  have cached: "df_cache (inst ?st) = Some example_df"
    using example_load by (rule load_cache_after)
  note w = accessors_frame [of ?st example_df "DiametroNominal ''M999''" "[Metricas, TamanoLlave ''M8'']"]
  from w cached have "snd (run (DiametroNominal ''M999'') ?st) = ?st"
    and "run_all [Metricas, TamanoLlave ''M8''] ?st = ?st"
    by blast+
  with cached show ?thesis by (intro conjI)
qed

section \<open>The store location\<close>

text \<open>
  C8. On an instance as \<open>__init__\<close> builds it, any accessor asks the loader exactly
  once, for the location \<open>Paths.data\<close> followed by a backslash and \<open>tornillos.db\<close> and
  for the table \<open>tamano_llaves\<close>, and the load returns what the loader gives for these.
\<close>

theorem loader_called_with_fixed_location:
  "loads (snd (run c \<lparr>inst = init Paths_data ld, loads = h\<rparr>)) =
     h @ [(Paths_data @ [CHR 0x5C] @ ''tornillos.db'', ''tamano_llaves'')]
   \<and> fst (load_dataframe \<lparr>inst = init Paths_data ld, loads = h\<rparr>) =
       ld h (Paths_data @ [CHR 0x5C] @ ''tornillos.db'') ''tamano_llaves''"
  by (simp add: snd_run load_dataframe_def init_def Let_def split: sum.splits)

section \<open>Failed lookups and the cache\<close>



end
